theory Spec2Isabelle
  imports Main "HOL-Library.Sublist" "HOL-Library.AList"
begin

section \<open>Data model\<close>

text \<open>
  The step-defining calls of \<^verbatim>\<open>couler/core/run_templates.py\<close> work on Python values and on
  the module-level state of \<^verbatim>\<open>couler.core.states\<close>. Python values are modelled as a
  datatype; arguments are values, so a list handed to a call is not shared with the
  caller, with the state or with another argument of the same call, and a parsed YAML
  document is a tree (no anchors shared between two sections).
\<close>

text \<open>
  Modelled from the spec: the classes \<^verbatim>\<open>Output\<close>, \<^verbatim>\<open>OutputArtifact\<close> and \<^verbatim>\<open>OutputJob\<close> of
  \<^verbatim>\<open>couler.core.templates\<close> are missing. An Output Proxy has one of the variants plain
  value, artifact reference, external-resource reference, and the attributes producing
  step name, producing template name and field selector.
  \<^verbatim>\<open>isinstance(x, Output)\<close> holds for every proxy,
  \<^verbatim>\<open>isinstance(x, (OutputArtifact, OutputJob))\<close> for the artifact and resource kinds.
\<close>

datatype okind = Plain | Artifact | Resource

datatype proxy =
  Output (kind: okind) (producer: string) (producer_template: string) (field: string)

datatype pyval =
    PNone
  | PBool bool
  | PInt int
  | PStr string
  | POut proxy
  | PList "pyval list"
  | PDict "(pyval \<times> pyval) list"

datatype error =
    ValueError string
  | KeyError
  | TypeError
  | AttributeError
  | YAMLError
  | DuplicateTemplateError
  | InvalidArgumentError

text \<open>
  The source raises \<^verbatim>\<open>ValueError\<close> with a message; the specification calls the two
  failures \<open>MissingSourceError\<close> and \<open>MissingManifestError\<close>.
\<close>

abbreviation MissingSourceError :: error where
  "MissingSourceError \<equiv> ValueError ''Input script can not be null''"

abbreviation MissingManifestError :: error where
  "MissingManifestError \<equiv> ValueError ''Input manifest can not be null''"

text \<open>The keyword arguments of the three template constructors, as the source passes them.\<close>

record script_template =
  s_name :: string
  s_image :: pyval
  s_command :: pyval
  s_source :: pyval
  s_env :: pyval
  s_secret :: pyval
  s_resources :: pyval
  s_timeout :: pyval
  s_retry :: pyval
  s_image_pull_policy :: pyval
  s_pool :: pyval
  s_daemon :: pyval

record container_template =
  c_name :: string
  c_image :: pyval
  c_command :: pyval
  c_args :: pyval
  c_env :: pyval
  c_secret :: pyval
  c_resources :: pyval
  c_image_pull_policy :: pyval
  c_retry :: pyval
  c_timeout :: pyval
  c_output :: pyval
  c_input :: pyval
  c_pool :: pyval
  c_enable_ulogfs :: pyval
  c_daemon :: pyval
  c_volume_mounts :: pyval

record job_template =
  j_name :: string
  j_args :: pyval
  j_action :: string
  j_manifest :: string
  j_set_owner_reference :: pyval
  j_success_condition :: pyval
  j_failure_condition :: pyval
  j_timeout :: pyval
  j_retry :: pyval
  j_pool :: pyval

datatype template =
    Script script_template
  | Container container_template
  | Job job_template

fun template_name :: "template \<Rightarrow> string" where
  "template_name (Script t) = s_name t"
| "template_name (Container t) = c_name t"
| "template_name (Job t) = j_name t"

text \<open>
  Modelled from the spec: the class \<^verbatim>\<open>Step\<close> is missing. A Step has a step name, the name
  of its template, its resolved argument values, the dependency references to prior
  steps, and the artifact and resource proxies registered as its required inputs.
\<close>

record step =
  step_name :: string
  step_template :: string
  step_args :: pyval
  step_deps :: "string list"
  step_inputs :: "proxy list"

text \<open>
  The state of \<^verbatim>\<open>couler.core.states\<close>: the workflow's templates in registration order and
  its steps in append order, the staging list \<^verbatim>\<open>_outputs_tmp\<close> (\<open>None\<close> or a list of
  proxies), the dictionary \<^verbatim>\<open>_steps_outputs\<close> (Python allows the key \<open>None\<close>), and the
  secret table.
\<close>

record states =
  templates :: "(string \<times> template) list"
  steps :: "step list"
  outputs_tmp :: "proxy list option"
  steps_outputs :: "(string option \<times> pyval) list"
  secrets :: "(pyval \<times> pyval) list"

type_synonym 'a result = "(error + 'a) \<times> states"

section \<open>Collaborators that are not part of the sources\<close>

text \<open>
  The functions below are called by \<^verbatim>\<open>run_templates.py\<close> and the specification does not
  say what they compute; they are parameters of the model.
  \<^verbatim>\<open>template_outputs\<close> stands for \<^verbatim>\<open>template.to_dict().get("outputs", None)\<close>.
  The result of \<^verbatim>\<open>pyfunc.invocation_location()\<close>, the pair of the calling function's name
  and the caller's line, is a parameter \<open>site\<close> of every step-defining call.
\<close>

record helpers =
  argo_safe_name :: "string \<Rightarrow> string"
  script_output :: "string \<Rightarrow> string \<Rightarrow> pyval"
  container_output :: "string \<Rightarrow> string \<Rightarrow> pyval \<Rightarrow> pyval"
  job_output :: "string option \<Rightarrow> string \<Rightarrow> pyval"
  template_outputs :: "template \<Rightarrow> pyval"
  generate_parameters_run_job :: "pyval \<Rightarrow> pyval \<times> pyval \<times> pyval"
  yaml_safe_load :: "string \<Rightarrow> error + pyval"
  pyaml_dump :: "pyval \<Rightarrow> string"

text \<open>
  Modelled from the spec: \<^verbatim>\<open>states.workflow.get_template\<close> and
  \<^verbatim>\<open>states.workflow.add_template\<close> are missing. The registry is a keyed store in
  registration order; registering a name that is present with a different payload fails
  with \<open>DuplicateTemplateError\<close>, registering the identical payload again is a no-op.
\<close>

definition get_template :: "states \<Rightarrow> string \<Rightarrow> template option" where
  "get_template st name = map_of (templates st) name"

definition add_template :: "template \<Rightarrow> states \<Rightarrow> unit result" where
  "add_template t st =
     (case get_template st (template_name t) of
        None \<Rightarrow> (Inr (), st\<lparr>templates := templates st @ [(template_name t, t)]\<rparr>)
      | Some t' \<Rightarrow> if t' = t then (Inr (), st) else (Inl DuplicateTemplateError, st))"

text \<open>
  Modelled from the spec: \<^verbatim>\<open>states.get_secret\<close> is missing. The secret resolver looks a
  reference up in the secret table and returns the handle, or \<open>None\<close> when absent.
\<close>

definition get_secret :: "states \<Rightarrow> pyval \<Rightarrow> pyval" where
  "get_secret st secret =
     (case map_of (secrets st) secret of None \<Rightarrow> PNone | Some handle \<Rightarrow> handle)"

text \<open>
  Modelled from the spec: part of the missing \<^verbatim>\<open>update_step\<close>, the decimal rendering of
  the counter in a disambiguated step name such as \<open>s1-2\<close>.
\<close>

definition digit_char :: "nat \<Rightarrow> char" where
  "digit_char d = char_of (48 + d)"

fun string_of_nat :: "nat \<Rightarrow> string" where
  "string_of_nat n =
     (if n < 10 then [digit_char n]
      else string_of_nat (n div 10) @ [digit_char (n mod 10)])"

declare string_of_nat.simps [simp del]

text \<open>
  Modelled from the spec: \<^verbatim>\<open>step_update_utils.update_step\<close> is missing. The proxies of an
  argument value are searched in the value itself, in its elements, and in the elements
  of its elements (nested one-level sequences).
\<close>

fun proxy_of :: "pyval \<Rightarrow> proxy list" where
  "proxy_of (POut p) = [p]"
| "proxy_of _ = []"

fun scan_item :: "pyval \<Rightarrow> proxy list" where
  "scan_item (PList ys) = concat (map proxy_of ys)"
| "scan_item a = proxy_of a"

fun scan_args :: "pyval \<Rightarrow> proxy list" where
  "scan_args (PList xs) = concat (map scan_item xs)"
| "scan_args a = proxy_of a"

text \<open>
  Modelled from the spec: parts of the missing \<^verbatim>\<open>update_step\<close>: whether the staging list
  is non-empty, its content as an argument list, the number of Steps of a template, and
  the step name of the next instance of a template.
\<close>

definition pending_nonempty :: "states \<Rightarrow> bool" where
  "pending_nonempty st = (case outputs_tmp st of None \<Rightarrow> False | Some ps \<Rightarrow> ps \<noteq> [])"

definition pending_list :: "states \<Rightarrow> pyval list" where
  "pending_list st = (case outputs_tmp st of None \<Rightarrow> [] | Some ps \<Rightarrow> map POut ps)"

definition instances :: "states \<Rightarrow> string \<Rightarrow> nat" where
  "instances st name = length (filter (\<lambda>s. step_template s = name) (steps st))"

definition instance_name :: "string \<Rightarrow> nat \<Rightarrow> string" where
  "instance_name name n =
     (if n = 0 then name else name @ ''-'' @ string_of_nat (Suc n))"

text \<open>
  Modelled from the spec: the Step Graph Assembler of section 4.3.
  \<^enum> The resolved step name is the template name; when a Step of the template exists
    already (the call repeats), the suffix \<open>-k\<close> is appended, where \<open>k\<close> counts the
    instances of the template including the new one (\<open>s1\<close>, \<open>s1-2\<close>, ...).
  \<^enum> If no arguments are supplied and the staging list is non-empty, the staged proxies
    are the argument list and the staging list is cleared.
  \<^enum> Every proxy found in the arguments gives a dependency on its producing step; an
    artifact or resource proxy is also a required input of the Step, and the call fails
    with \<open>InvalidArgumentError\<close> when its producing step is not in the graph.
  \<^enum> The Step is appended and the resolved name returned.
  The explicit step name and the caller's line are part of the contract; the template
  name handed over by the callers is already derived from them.
\<close>

definition update_step ::
  "string \<Rightarrow> pyval \<Rightarrow> string option \<Rightarrow> nat \<Rightarrow> states \<Rightarrow> string result" where
  "update_step func_name args explicit_step_name caller_line st =
     (let resolved = instance_name func_name (instances st func_name);
          implicit = (args = PNone \<and> pending_nonempty st);
          effective = (if implicit then PList (pending_list st) else args);
          found = scan_args effective;
          required = filter (\<lambda>p. kind p \<noteq> Plain) found
      in if \<exists>p \<in> set required. producer p \<notin> set (map step_name (steps st))
         then (Inl InvalidArgumentError, st)
         else (Inr resolved,
               st\<lparr>steps := steps st @
                      [\<lparr>step_name = resolved, step_template = func_name,
                        step_args = effective, step_deps = remdups (map producer found),
                        step_inputs = required\<rparr>],
                  outputs_tmp := (if implicit then None else outputs_tmp st)\<rparr>))"

section \<open>Python operations used by the step-defining calls\<close>

text \<open>
  Subscription \<^verbatim>\<open>d[k]\<close>, item assignment \<^verbatim>\<open>d[k] = v\<close> and membership \<^verbatim>\<open>k in d\<close>, for a
  string key \<open>k\<close>: a dictionary looks the key up, a list or a string cannot be indexed
  by a string, membership in a list compares the elements, membership in a string is
  the substring test, and the other values are neither subscriptable nor iterable.
  An assignment to a present key keeps the key's position; a new key goes to the end.
\<close>

definition py_getitem :: "pyval \<Rightarrow> pyval \<Rightarrow> error + pyval" where
  "py_getitem d k =
     (case d of
        PDict al \<Rightarrow> (case map_of al k of None \<Rightarrow> Inl KeyError | Some v \<Rightarrow> Inr v)
      | _ \<Rightarrow> Inl TypeError)"

definition py_setitem :: "pyval \<Rightarrow> pyval \<Rightarrow> pyval \<Rightarrow> error + pyval" where
  "py_setitem d k v =
     (case d of
        PDict al \<Rightarrow> Inr (PDict (AList.update k v al))
      | _ \<Rightarrow> Inl TypeError)"

definition py_contains :: "pyval \<Rightarrow> pyval \<Rightarrow> error + bool" where
  "py_contains k d =
     (case d of
        PDict al \<Rightarrow> Inr (k \<in> set (map fst al))
      | PList xs \<Rightarrow> Inr (k \<in> set xs)
      | PStr s \<Rightarrow> (case k of PStr t \<Rightarrow> Inr (sublist t s) | _ \<Rightarrow> Inl TypeError)
      | _ \<Rightarrow> Inl TypeError)"

definition is_artifact :: "pyval \<Rightarrow> bool" where
  "is_artifact arg = (case arg of POut p \<Rightarrow> kind p = Artifact \<or> kind p = Resource | _ \<Rightarrow> False)"

section \<open>run_script\<close>

record script_call =
  rs_image :: pyval
  rs_command :: pyval
  rs_source :: pyval
  rs_env :: pyval
  rs_resources :: pyval
  rs_secret :: pyval
  rs_timeout :: pyval
  rs_retry :: pyval
  rs_step_name :: "string option"
  rs_image_pull_policy :: pyval
  rs_pool :: pyval
  rs_daemon :: pyval

text \<open>
  \<^verbatim>\<open>func_name = argo_safe_name(step_name) if step_name is not None else func_name\<close>
\<close>

definition resolve_name :: "helpers \<Rightarrow> string \<times> nat \<Rightarrow> string option \<Rightarrow> string" where
  "resolve_name h site explicit =
     (case explicit of None \<Rightarrow> fst site | Some n \<Rightarrow> argo_safe_name h n)"

definition run_script :: "helpers \<Rightarrow> string \<times> nat \<Rightarrow> script_call \<Rightarrow> states \<Rightarrow> pyval result" where
  "run_script h site c st =
     (let func_name = resolve_name h site (rs_step_name c);
          caller_line = snd site
      in case (if get_template st func_name = None
               then (if rs_source c = PNone then (Inl MissingSourceError, st)
                     else add_template
                            (Script \<lparr>s_name = func_name, s_image = rs_image c,
                               s_command = rs_command c, s_source = rs_source c,
                               s_env = rs_env c, s_secret = get_secret st (rs_secret c),
                               s_resources = rs_resources c, s_timeout = rs_timeout c,
                               s_retry = rs_retry c,
                               s_image_pull_policy = rs_image_pull_policy c,
                               s_pool = rs_pool c, s_daemon = rs_daemon c\<rparr>) st)
               else (Inr (), st)) of
           (Inl e, st1) \<Rightarrow> (Inl e, st1)
         | (Inr u, st1) \<Rightarrow>
             (case update_step func_name PNone (rs_step_name c) caller_line st1 of
                (Inl e, st2) \<Rightarrow> (Inl e, st2)
              | (Inr resolved, st2) \<Rightarrow>
                  (let rets = script_output h resolved func_name
                   in (Inr rets,
                       st2\<lparr>steps_outputs :=
                             AList.update (Some resolved) rets (steps_outputs st2)\<rparr>))))"

section \<open>run_container\<close>

record container_call =
  rc_image :: pyval
  rc_command :: pyval
  rc_args :: pyval
  rc_output :: pyval
  rc_input :: pyval
  rc_env :: pyval
  rc_secret :: pyval
  rc_resources :: pyval
  rc_timeout :: pyval
  rc_retry :: pyval
  rc_step_name :: "string option"
  rc_image_pull_policy :: pyval
  rc_pool :: pyval
  rc_enable_ulogfs :: pyval
  rc_daemon :: pyval
  rc_volume_mounts :: pyval

text \<open>\<^verbatim>\<open>if not isinstance(args, list): args = [args]\<close>\<close>

definition promote :: "pyval \<Rightarrow> pyval list" where
  "promote args = (case args of PList xs \<Rightarrow> xs | _ \<Rightarrow> [args])"

text \<open>
  The list-of-list case: a non-empty list whose first element is a non-empty list that
  starts with a proxy is replaced by that first element.
\<close>

fun flatten_first :: "pyval list \<Rightarrow> pyval list" where
  "flatten_first (PList (POut p # ys) # rest) = POut p # ys"
| "flatten_first xs = xs"

text \<open>
  \<^verbatim>\<open>for arg in args: if isinstance(arg, (OutputArtifact, OutputJob)): input.append(arg)\<close>;
  only a list has \<^verbatim>\<open>append\<close>.
\<close>

fun mirror :: "pyval list \<Rightarrow> pyval \<Rightarrow> error + pyval" where
  "mirror [] input = Inr input"
| "mirror (arg # rest) input =
     (if is_artifact arg
      then (case input of
              PList ins \<Rightarrow> mirror rest (PList (ins @ [arg]))
            | _ \<Rightarrow> Inl AttributeError)
      else mirror rest input)"

text \<open>Lines 128 to 156: the normalised \<open>args\<close> and \<open>input\<close> of a fresh template.\<close>

definition normalize_args ::
  "pyval \<Rightarrow> pyval \<Rightarrow> proxy list option \<Rightarrow> error + pyval \<times> pyval" where
  "normalize_args args input tmp =
     (let input1 = (if input = PNone then PList [] else input);
          args1 = (if args = PNone \<and> tmp \<noteq> None then PList [] else args)
      in if args1 = PNone then Inr (args1, input1)
         else (let items = flatten_first (promote args1) @
                           (case tmp of None \<Rightarrow> [] | Some ps \<Rightarrow> map POut ps)
               in case mirror items input1 of
                    Inl e \<Rightarrow> Inl e
                  | Inr input2 \<Rightarrow> Inr (PList items, input2)))"

text \<open>Lines 179 to 190: the step is assembled, the proxy built and stored.\<close>

definition container_step ::
  "helpers \<Rightarrow> string \<Rightarrow> pyval \<Rightarrow> string option \<Rightarrow> nat \<Rightarrow> states \<Rightarrow> pyval result" where
  "container_step h func_name args explicit caller_line st1 =
     (case update_step func_name args explicit caller_line st1 of
        (Inl e, st2) \<Rightarrow> (Inl e, st2)
      | (Inr resolved, st2) \<Rightarrow>
          (case get_template st2 func_name of
             None \<Rightarrow> (Inl AttributeError, st2)
           | Some t \<Rightarrow>
               (let rets = container_output h resolved func_name (template_outputs h t)
                in (Inr rets,
                    st2\<lparr>steps_outputs :=
                          AList.update (Some resolved) rets (steps_outputs st2)\<rparr>))))"

definition run_container ::
  "helpers \<Rightarrow> string \<times> nat \<Rightarrow> container_call \<Rightarrow> states \<Rightarrow> pyval result" where
  "run_container h site c st =
     (let func_name = resolve_name h site (rc_step_name c);
          caller_line = snd site
      in case (if get_template st func_name = None
               then (case normalize_args (rc_args c) (rc_input c) (outputs_tmp st) of
                       Inl e \<Rightarrow> (Inl e, st)
                     | Inr (args, input) \<Rightarrow>
                         (case add_template
                                 (Container \<lparr>c_name = func_name, c_image = rc_image c,
                                    c_command = rc_command c, c_args = args,
                                    c_env = rc_env c,
                                    c_secret = get_secret st (rc_secret c),
                                    c_resources = rc_resources c,
                                    c_image_pull_policy = rc_image_pull_policy c,
                                    c_retry = rc_retry c, c_timeout = rc_timeout c,
                                    c_output = rc_output c, c_input = input,
                                    c_pool = rc_pool c,
                                    c_enable_ulogfs = rc_enable_ulogfs c,
                                    c_daemon = rc_daemon c,
                                    c_volume_mounts = rc_volume_mounts c\<rparr>) st of
                            (Inl e, st1) \<Rightarrow> (Inl e, st1)
                          | (Inr u, st1) \<Rightarrow> (Inr args, st1)))
               else (Inr (rc_args c), st)) of
           (Inl e, st1) \<Rightarrow> (Inl e, st1)
         | (Inr args, st1) \<Rightarrow>
             container_step h func_name args (rc_step_name c) caller_line st1)"

section \<open>run_job\<close>

record job_call =
  rj_manifest :: "string option"
  rj_success_condition :: pyval
  rj_failure_condition :: pyval
  rj_timeout :: pyval
  rj_retry :: pyval
  rj_step_name :: "string option"
  rj_pool :: pyval
  rj_env :: "(pyval \<times> pyval) list option"
  rj_set_owner_reference :: pyval

definition pod_name_expr :: string where
  "pod_name_expr = [CHR 0x27] @ ''{{pod.name}}'' @ [CHR 0x27]"

text \<open>
  Lines 238 to 248, on the parsed manifest. Python changes the nested dictionaries in
  place; here each changed dictionary is written back under its key.
\<close>

definition patch_manifest :: "pyval \<Rightarrow> pyval \<Rightarrow> error + pyval" where
  "patch_manifest envs manifest_dict =
     (case py_getitem manifest_dict (PStr ''spec'') of
        Inl e \<Rightarrow> Inl e
      | Inr spec \<Rightarrow>
     (case py_setitem spec (PStr ''env'') envs of
        Inl e \<Rightarrow> Inl e
      | Inr spec' \<Rightarrow>
     (case py_setitem manifest_dict (PStr ''spec'') spec' of
        Inl e \<Rightarrow> Inl e
      | Inr d1 \<Rightarrow>
     (case py_getitem d1 (PStr ''metadata'') of
        Inl e \<Rightarrow> Inl e
      | Inr metadata \<Rightarrow>
     (case py_contains (PStr ''labels'') metadata of
        Inl e \<Rightarrow> Inl e
      | Inr False \<Rightarrow> Inr d1
      | Inr True \<Rightarrow>
     (case py_getitem metadata (PStr ''labels'') of
        Inl e \<Rightarrow> Inl e
      | Inr labels \<Rightarrow>
     (case py_contains (PStr ''argo.step.owner'') labels of
        Inl e \<Rightarrow> Inl e
      | Inr False \<Rightarrow> Inr d1
      | Inr True \<Rightarrow>
     (case py_setitem labels (PStr ''argo.step.owner'') (PStr pod_name_expr) of
        Inl e \<Rightarrow> Inl e
      | Inr labels' \<Rightarrow>
     (case py_setitem metadata (PStr ''labels'') labels' of
        Inl e \<Rightarrow> Inl e
      | Inr metadata' \<Rightarrow> py_setitem d1 (PStr ''metadata'') metadata')))))))))"





text \<open>
  Lines 229 to 250: the environment with the staged outputs, the generated parameters,
  and the manifest handed to the template.
\<close>

definition job_env :: "states \<Rightarrow> (pyval \<times> pyval) list option \<Rightarrow> pyval" where
  "job_env st env =
     (case env of
        None \<Rightarrow> PNone
      | Some e \<Rightarrow>
          (case outputs_tmp st of
             None \<Rightarrow> PDict e
           | Some tmp \<Rightarrow>
               PDict (AList.update (PStr ''inferred_outputs'') (PList (map POut tmp)) e)))"

definition job_manifest :: "helpers \<Rightarrow> pyval \<Rightarrow> pyval \<Rightarrow> string \<Rightarrow> error + string" where
  "job_manifest h env envs manifest =
     (if env \<noteq> PNone
      then (case yaml_safe_load h manifest of
              Inl e \<Rightarrow> Inl e
            | Inr manifest_dict \<Rightarrow>
                (case patch_manifest envs manifest_dict of
                   Inl e \<Rightarrow> Inl e
                 | Inr d \<Rightarrow> Inr (pyaml_dump h d)))
      else Inr manifest)"

definition run_job :: "helpers \<Rightarrow> string \<times> nat \<Rightarrow> job_call \<Rightarrow> states \<Rightarrow> pyval result" where
  "run_job h site c st =
     (case rj_manifest c of
        None \<Rightarrow> (Inl MissingManifestError, st)
      | Some manifest \<Rightarrow>
     (let func_name = resolve_name h site (rj_step_name c);
          caller_line = snd site
      in case (if get_template st func_name = None
               then (let env = job_env st (rj_env c);
                         (envs, parameters, args) = generate_parameters_run_job h env
                     in case job_manifest h env envs manifest of
                          Inl e \<Rightarrow> (Inl e, st)
                        | Inr manifest' \<Rightarrow>
                            (case add_template
                                    (Job \<lparr>j_name = func_name, j_args = args,
                                       j_action = ''create'', j_manifest = manifest',
                                       j_set_owner_reference = rj_set_owner_reference c,
                                       j_success_condition = rj_success_condition c,
                                       j_failure_condition = rj_failure_condition c,
                                       j_timeout = rj_timeout c, j_retry = rj_retry c,
                                       j_pool = rj_pool c\<rparr>) st of
                               (Inl e, st1) \<Rightarrow> (Inl e, st1)
                             | (Inr u, st1) \<Rightarrow> (Inr args, st1)))
               else (Inr (PList []), st)) of
           (Inl e, st1) \<Rightarrow> (Inl e, st1)
         | (Inr args, st1) \<Rightarrow>
             (case update_step func_name args (rj_step_name c) caller_line st1 of
                (Inl e, st2) \<Rightarrow> (Inl e, st2)
              | (Inr resolved, st2) \<Rightarrow>
                  (let rets = job_output h (rj_step_name c) func_name
                   in (Inr rets,
                       st2\<lparr>steps_outputs :=
                             AList.update (rj_step_name c) rets (steps_outputs st2)\<rparr>)))))"

section \<open>A call site that is entered repeatedly\<close>

text \<open>
  The host program's loops decide how often a step-defining call runs. The invocations
  of one call site share the site and the explicit name; the other arguments are those
  of each invocation (a Python list that an earlier invocation extended in place is
  another argument value of the later one). Between two invocations the program may do
  anything that leaves the template of that name alone, such as step-defining calls
  under other names.
\<close>

datatype call = RunScript script_call | RunContainer container_call | RunJob job_call

fun invoke :: "helpers \<Rightarrow> string \<times> nat \<Rightarrow> call \<Rightarrow> states \<Rightarrow> pyval result" where
  "invoke h site (RunScript c) st = run_script h site c st"
| "invoke h site (RunContainer c) st = run_container h site c st"
| "invoke h site (RunJob c) st = run_job h site c st"

fun explicit_name :: "call \<Rightarrow> string option" where
  "explicit_name (RunScript c) = rs_step_name c"
| "explicit_name (RunContainer c) = rc_step_name c"
| "explicit_name (RunJob c) = rj_step_name c"


text \<open>
  A proxy is known when it is a plain value or its producing step is in the graph; the
  assembler refuses an artifact or resource proxy that is not.
\<close>

definition known :: "states \<Rightarrow> proxy \<Rightarrow> bool" where
  "known st p = (kind p = Plain \<or> producer p \<in> set (map step_name (steps st)))"

definition args_known :: "states \<Rightarrow> pyval \<Rightarrow> bool" where
  "args_known st v = list_all (known st) (scan_args v)"

definition staging_known :: "states \<Rightarrow> bool" where
  "staging_known st =
     list_all (known st) (case outputs_tmp st of None \<Rightarrow> [] | Some ps \<Rightarrow> ps)"



text \<open>
  What happens between two invocations leaves the template \<open>name\<close> alone: templates
  and steps are only appended, none of them under that name.
\<close>

definition quiet :: "string \<Rightarrow> states \<Rightarrow> states \<Rightarrow> bool" where
  "quiet name st st' =
     (prefix (templates st) (templates st') \<and>
      name \<notin> set (map fst (drop (length (templates st)) (templates st'))) \<and>
      prefix (steps st) (steps st') \<and>
      list_all (\<lambda>s. step_template s \<noteq> name) (drop (length (steps st)) (steps st')))"


section \<open>Sample collaborators and inputs\<close>

text \<open>
  One instance of the collaborators, the empty workflow, a workflow with one staged
  proxy, and the calls with the default values of the Python signatures; they serve to
  run the model on examples.
\<close>

definition sample_manifest :: pyval where
  "sample_manifest =
     PDict [(PStr ''kind'', PStr ''Job''),
            (PStr ''metadata'',
               PDict [(PStr ''name'', PStr ''pi''),
                      (PStr ''labels'',
                         PDict [(PStr ''argo.step.owner'', PStr ''me''),
                                (PStr ''app'', PStr ''pi'')])]),
            (PStr ''spec'',
               PDict [(PStr ''env'',
                         PList [PDict [(PStr ''name'', PStr ''OLD''),
                                       (PStr ''value'', PStr ''1'')]]),
                      (PStr ''backoffLimit'', PInt 4)])]"

definition sample_envs :: "pyval \<Rightarrow> pyval" where
  "sample_envs env =
     (case env of
        PDict e \<Rightarrow> PList (map (\<lambda>(k, v). PDict [(PStr ''name'', k), (PStr ''value'', v)]) e)
      | _ \<Rightarrow> PList [])"

text \<open>A plain serialiser of Python values, standing in for \<^verbatim>\<open>pyaml.dump\<close>.\<close>

fun render :: "pyval \<Rightarrow> string" where
  "render PNone = ''null''"
| "render (PBool b) = (if b then ''true'' else ''false'')"
| "render (PInt i) = (if i < 0 then ''-'' else []) @ string_of_nat (nat \<bar>i\<bar>)"
| "render (PStr s) = s"
| "render (POut p) = ''<'' @ producer p @ ''.'' @ field p @ ''>''"
| "render (PList xs) = ''['' @ concat (map (\<lambda>x. render x @ '' '') xs) @ '']''"
| "render (PDict al) =
     ''{'' @ concat (map (\<lambda>(k, v). render k @ '': '' @ render v @ '' '') al) @ ''}''"

definition sample_helpers :: helpers where
  "sample_helpers =
     \<lparr>argo_safe_name = map (\<lambda>c. if c = CHR ''_'' \<or> c = CHR ''.'' then CHR ''-'' else c),
      script_output = (\<lambda>s t. PList [POut (Output Plain s t ''result'')]),
      container_output = (\<lambda>s t out. PList [POut (Output Artifact s t ''out'')]),
      job_output =
        (\<lambda>s t. PList [POut (Output Resource (case s of None \<Rightarrow> ''None'' | Some n \<Rightarrow> n) t ''job'')]),
      template_outputs = (\<lambda>t. PNone),
      generate_parameters_run_job = (\<lambda>env. (sample_envs env, PList [], PList [])),
      yaml_safe_load = (\<lambda>s. if s = ''pi.yaml'' then Inr sample_manifest else Inl YAMLError),
      pyaml_dump = render\<rparr>"

definition empty_states :: states where
  "empty_states =
     \<lparr>templates = [], steps = [], outputs_tmp = None, steps_outputs = [], secrets = []\<rparr>"

definition staged_states :: states where
  "staged_states = empty_states\<lparr>outputs_tmp := Some [Output Plain ''s'' ''s'' ''result'']\<rparr>"



definition script_defaults :: "pyval \<Rightarrow> script_call" where
  "script_defaults img =
     \<lparr>rs_image = img, rs_command = PNone, rs_source = PNone, rs_env = PNone,
      rs_resources = PNone, rs_secret = PNone, rs_timeout = PNone, rs_retry = PNone,
      rs_step_name = None, rs_image_pull_policy = PNone, rs_pool = PNone,
      rs_daemon = PBool False\<rparr>"

definition container_defaults :: "pyval \<Rightarrow> container_call" where
  "container_defaults img =
     \<lparr>rc_image = img, rc_command = PNone, rc_args = PNone, rc_output = PNone,
      rc_input = PNone, rc_env = PNone, rc_secret = PNone, rc_resources = PNone,
      rc_timeout = PNone, rc_retry = PNone, rc_step_name = None,
      rc_image_pull_policy = PNone, rc_pool = PNone, rc_enable_ulogfs = PBool True,
      rc_daemon = PBool False, rc_volume_mounts = PNone\<rparr>"


definition echo_call :: container_call where
  "echo_call = (container_defaults (PStr ''alpine''))\<lparr>rc_args := PStr ''echo''\<rparr>"

definition after_echo :: states where
  "after_echo = snd (run_container sample_helpers (''c'', 5) echo_call empty_states)"

definition produced :: states where
  "produced =
     snd (run_container sample_helpers (''produce'', 2) (container_defaults (PStr ''alpine''))
            empty_states)"

definition produced_artifact :: proxy where
  "produced_artifact = Output Artifact ''produce'' ''produce'' ''out''"

definition consume_call :: container_call where
  "consume_call =
     (container_defaults (PStr ''alpine''))\<lparr>rc_args := PList [POut produced_artifact]\<rparr>"









definition job_defaults :: "string option \<Rightarrow> pyval \<Rightarrow> pyval \<Rightarrow> job_call" where
  "job_defaults manifest success_condition failure_condition =
     \<lparr>rj_manifest = manifest, rj_success_condition = success_condition,
      rj_failure_condition = failure_condition, rj_timeout = PNone, rj_retry = PNone,
      rj_step_name = None, rj_pool = PNone, rj_env = None,
      rj_set_owner_reference = PBool True\<rparr>"

section \<open>SQL escaping (couler/steps/sqlflow.py)\<close>

text \<open>
  Python's \<^verbatim>\<open>str.replace(old, new)\<close> scans the string from the left and replaces every
  non-overlapping occurrence of \<open>old\<close>. With an empty \<open>old\<close> it puts \<open>new\<close> before every
  character and at the end. Strings are modelled as lists of bytes; the four characters
  that \<^verbatim>\<open>escape_sql\<close> touches are ASCII, and an ASCII byte never occurs inside a
  multi-byte UTF-8 sequence, so replacing bytes and replacing code points agree.
\<close>

function replace_nonempty :: "string \<Rightarrow> string \<Rightarrow> string \<Rightarrow> string" where
  "replace_nonempty old new [] = []"
| "replace_nonempty old new (c # cs) =
     (if old \<noteq> [] \<and> prefix old (c # cs)
      then new @ replace_nonempty old new (drop (length old) (c # cs))
      else c # replace_nonempty old new cs)"
  by pat_completeness auto
termination
  by (relation "measure (\<lambda>(old, new, s). length s)") auto

definition str_replace :: "string \<Rightarrow> string \<Rightarrow> string \<Rightarrow> string" where
  "str_replace old new s =
     (if old = [] then new @ concat (map (\<lambda>c. c # new) s)
      else replace_nonempty old new s)"

definition backslash :: char where "backslash = CHR 0x5C"
definition dquote :: char where "dquote = CHR 0x22"
definition backtick :: char where "backtick = CHR 0x60"
definition dollar :: char where "dollar = CHR 0x24"

text \<open>
  \<^verbatim>\<open>original_sql.replace('\\', '\\\\').replace('"', r'\"').replace("`", r'\`').replace("$", r'\$')\<close>
\<close>

definition escape_sql :: "string \<Rightarrow> string" where
  "escape_sql original_sql =
     str_replace [dollar] [backslash, dollar]
       (str_replace [backtick] [backslash, backtick]
         (str_replace [dquote] [backslash, dquote]
           (str_replace [backslash] [backslash, backslash] original_sql)))"

text \<open>
  The same transformation in the words of the specification: four passes over the
  string, each replacing every occurrence of one character by a fixed string.
\<close>

definition replace_each :: "char \<Rightarrow> string \<Rightarrow> string \<Rightarrow> string" where
  "replace_each c r s = concat (map (\<lambda>x. if x = c then r else [x]) s)"

definition escape_sql_spec :: "string \<Rightarrow> string" where
  "escape_sql_spec s =
     replace_each dollar [backslash, dollar]
       (replace_each backtick [backslash, backtick]
         (replace_each dquote [backslash, dquote]
           (replace_each backslash [backslash, backslash] s)))"

section \<open>Properties of the registry and the assembler\<close>

lemma update_step_error:
  "update_step f a e l st = (Inl err, st') \<Longrightarrow> err = InvalidArgumentError \<and> st' = st"
  by (auto simp: update_step_def Let_def split: if_splits)

lemma update_step_ok:
  assumes "update_step f a e l st = (Inr r, st')"
  shows "r = instance_name f (instances st f)"
    and "templates st' = templates st"
    and "steps_outputs st' = steps_outputs st"
    and "secrets st' = secrets st"
    and "\<exists>s. steps st' = steps st @ [s] \<and> step_name s = r \<and> step_template s = f \<and>
             step_args s = (if a = PNone \<and> pending_nonempty st then PList (pending_list st) else a) \<and>
             step_inputs s = filter (\<lambda>p. kind p \<noteq> Plain) (scan_args (step_args s))"
    and "outputs_tmp st' = (if a = PNone \<and> pending_nonempty st then None else outputs_tmp st)"
  using assms by (auto simp: update_step_def Let_def split: if_splits)

lemma add_template_fresh:
  "get_template st (template_name t) = None \<Longrightarrow>
   add_template t st = (Inr (), st\<lparr>templates := templates st @ [(template_name t, t)]\<rparr>)"
  by (simp add: add_template_def)


lemma mirror_list:
  "mirror items (PList ins) = Inr (PList (ins @ filter is_artifact items))"
  by (induction items arbitrary: ins) auto

lemma mirror_result:
  "mirror items input = Inr r \<Longrightarrow>
   (filter is_artifact items = [] \<and> r = input) \<or>
   (\<exists>ins. input = PList ins \<and> r = PList (ins @ filter is_artifact items))"
proof (induction items arbitrary: input)
  case Nil
  then show ?case by simp
next
  case (Cons a items)
  show ?case
  proof (cases "is_artifact a")
    case True
    with Cons.prems obtain ins where i: "input = PList ins"
      by (cases input) auto
    show ?thesis using i by (simp add: mirror_list) (use Cons.prems i mirror_list in auto)
  next
    case False
    with Cons show ?thesis by auto
  qed
qed

lemma mirror_member:
  assumes "mirror items input = Inr r" "is_artifact x" "x \<in> set items"
  shows "\<exists>ins. r = PList ins \<and> x \<in> set ins"
proof -
  from assms(2,3) have "filter is_artifact items \<noteq> []"
    by (auto simp: filter_empty_conv)
  with mirror_result [OF assms(1)] obtain ins
    where "r = PList (ins @ filter is_artifact items)" by auto
  with assms(2,3) show ?thesis by auto
qed

lemma normalize_args_None:
  "normalize_args a i tmp = Inr (PNone, input) \<Longrightarrow> tmp = None"
  by (auto simp: normalize_args_def Let_def split: if_splits sum.splits)

lemma scan_args_member: "POut p \<in> set items \<Longrightarrow> p \<in> set (scan_args (PList items))"
  by (induction items) auto

lemma container_step_inv:
  assumes "container_step h f a e l st = (Inr rets, st')"
  shows "\<exists>r st2. update_step f a e l st = (Inr r, st2) \<and>
           templates st' = templates st2 \<and> steps st' = steps st2 \<and>
           outputs_tmp st' = outputs_tmp st2 \<and> secrets st' = secrets st2 \<and>
           steps_outputs st' = AList.update (Some r) rets (steps_outputs st2)"
  using assms
  by (auto simp: container_step_def Let_def split: prod.splits sum.splits option.splits)

lemma container_step_templates:
  "templates (snd (container_step h f a e l st)) = templates st"
proof (cases "update_step f a e l st")
  case (Pair r st2)
  show ?thesis
  proof (cases r)
    case (Inl err)
    with Pair update_step_error [of f a e l st err st2] show ?thesis
      by (simp add: container_step_def)
  next
    case (Inr n)
    with Pair update_step_ok(2) [of f a e l st n st2] show ?thesis
      by (simp add: container_step_def Let_def split: option.splits)
  qed
qed

lemma run_container_fresh:
  assumes fresh: "get_template st (resolve_name h site (rc_step_name c)) = None"
    and ok: "run_container h site c st = (Inr rets, st')"
  shows "\<exists>args input t s.
           normalize_args (rc_args c) (rc_input c) (outputs_tmp st) = Inr (args, input) \<and>
           templates st' = templates st @ [(resolve_name h site (rc_step_name c), Container t)] \<and>
           c_args t = args \<and> c_input t = input \<and>
           steps st' = steps st @ [s] \<and> step_args s = args \<and>
           step_template s = resolve_name h site (rc_step_name c) \<and>
           step_inputs s = filter (\<lambda>p. kind p \<noteq> Plain) (scan_args args) \<and>
           outputs_tmp st' = outputs_tmp st"
proof -
  let ?n = "resolve_name h site (rc_step_name c)"
  from fresh ok obtain args input where
    n: "normalize_args (rc_args c) (rc_input c) (outputs_tmp st) = Inr (args, input)"
    by (auto simp: run_container_def Let_def split: sum.splits)
  define t where "t = \<lparr>c_name = ?n, c_image = rc_image c,
                                    c_command = rc_command c, c_args = args,
                                    c_env = rc_env c,
                                    c_secret = get_secret st (rc_secret c),
                                    c_resources = rc_resources c,
                                    c_image_pull_policy = rc_image_pull_policy c,
                                    c_retry = rc_retry c, c_timeout = rc_timeout c,
                                    c_output = rc_output c, c_input = input,
                                    c_pool = rc_pool c,
                                    c_enable_ulogfs = rc_enable_ulogfs c,
                                    c_daemon = rc_daemon c,
                                    c_volume_mounts = rc_volume_mounts c\<rparr>"
  define st1 where "st1 = st\<lparr>templates := templates st @ [(?n, Container t)]\<rparr>"
  have add: "add_template (Container t) st = (Inr (), st1)"
    using add_template_fresh [of st "Container t"] fresh by (simp add: t_def st1_def)
  have step: "container_step h ?n args (rc_step_name c) (snd site) st1 = (Inr rets, st')"
    using ok fresh n add by (simp add: run_container_def Let_def t_def)
  from container_step_inv [OF this]
  obtain r st2 where u: "update_step ?n args (rc_step_name c) (snd site) st1 = (Inr r, st2)"
    and st': "templates st' = templates st2" "steps st' = steps st2" "outputs_tmp st' = outputs_tmp st2"
    by auto
  have np: "\<not> (args = PNone \<and> pending_nonempty st1)"
    using normalize_args_None [of "rc_args c" "rc_input c" "outputs_tmp st" input] n
    by (auto simp: pending_nonempty_def st1_def)
  from update_step_ok(5) [OF u] np obtain s where
    "steps st2 = steps st1 @ [s]" "step_args s = args" "step_template s = ?n"
    "step_inputs s = filter (\<lambda>p. kind p \<noteq> Plain) (scan_args args)"
    by auto
  moreover have "templates st2 = templates st1" "outputs_tmp st2 = outputs_tmp st1"
    using update_step_ok(2,6) [OF u] np by auto
  ultimately show ?thesis using n st' by (auto simp: st1_def t_def)
qed

lemma run_container_reuse:
  assumes reg: "get_template st (resolve_name h site (rc_step_name c)) \<noteq> None"
  shows "run_container h site c st =
         container_step h (resolve_name h site (rc_step_name c)) (rc_args c) (rc_step_name c) (snd site) st"
  using reg by (auto simp: run_container_def Let_def)

lemma container_step_ok:
  assumes "container_step h f a e l st = (Inr rets, st')"
  shows "templates st' = templates st"
    and "\<exists>s. steps st' = steps st @ [s] \<and> step_template s = f \<and>
             step_name s = instance_name f (instances st f) \<and>
             step_args s = (if a = PNone \<and> pending_nonempty st then PList (pending_list st) else a) \<and>
             step_inputs s = filter (\<lambda>p. kind p \<noteq> Plain) (scan_args (step_args s))"
    and "outputs_tmp st' = (if a = PNone \<and> pending_nonempty st then None else outputs_tmp st)"
proof -
  from container_step_inv [OF assms]
  obtain r st2 where u: "update_step f a e l st = (Inr r, st2)"
    and st': "templates st' = templates st2" "steps st' = steps st2" "outputs_tmp st' = outputs_tmp st2"
    by auto
  show "templates st' = templates st" using update_step_ok(2) [OF u] st' by simp
  show "\<exists>s. steps st' = steps st @ [s] \<and> step_template s = f \<and>
             step_name s = instance_name f (instances st f) \<and>
             step_args s = (if a = PNone \<and> pending_nonempty st then PList (pending_list st) else a) \<and>
             step_inputs s = filter (\<lambda>p. kind p \<noteq> Plain) (scan_args (step_args s))"
    using update_step_ok(1,5) [OF u] st' by auto
  show "outputs_tmp st' = (if a = PNone \<and> pending_nonempty st then None else outputs_tmp st)"
    using update_step_ok(6) [OF u] st' by simp
qed

lemma normalize_args_mirror:
  "normalize_args a i tmp = Inr (PList items, input) \<Longrightarrow> \<exists>i1. mirror items i1 = Inr input"
  by (auto simp: normalize_args_def Let_def split: if_splits sum.splits)

lemma normalize_args_implicit:
  "normalize_args PNone i (Some ps) = Inr (args, input) \<Longrightarrow> args = PList (map POut ps)"
  by (auto simp: normalize_args_def Let_def promote_def split: if_splits sum.splits)

lemma is_artifact_proxy: "is_artifact (POut p) = (kind p = Artifact \<or> kind p = Resource)"
  by (simp add: is_artifact_def)

lemma kind_not_plain: "(kind p \<noteq> Plain) = (kind p = Artifact \<or> kind p = Resource)"
  by (cases "kind p") auto








section \<open>Properties of run_script\<close>

text \<open>
  C4: \<open>run_script\<close> raises \<open>MissingSourceError\<close> if and only if no source is given and no
  template is registered under the resolved name; a registered template is reused
  without looking at the source. On that failure the state is the state before the
  call: no Template is registered and no Step is appended.
\<close>

theorem run_script_missing_source:
  "(fst (run_script h site c st) = Inl MissingSourceError) =
     (rs_source c = PNone \<and> get_template st (resolve_name h site (rs_step_name c)) = None) \<and>
   (rs_source c = PNone \<and> get_template st (resolve_name h site (rs_step_name c)) = None \<longrightarrow>
     run_script h site c st = (Inl MissingSourceError, st))"
  by (auto simp: run_script_def Let_def add_template_fresh split: prod.splits sum.splits
      dest: update_step_error)

theorem run_script_missing_source_witness:
  "rs_source (script_defaults (PStr ''python'')) = PNone \<and>
   get_template empty_states
     (resolve_name sample_helpers (''f'', 3)
        (rs_step_name (script_defaults (PStr ''python'')))) = None \<and>
   run_script sample_helpers (''f'', 3) (script_defaults (PStr ''python'')) empty_states =
     (Inl MissingSourceError, empty_states)"
proof -
  have a: "rs_source (script_defaults (PStr ''python'')) = PNone"
    by (simp add: script_defaults_def)
  have b: "get_template empty_states
     (resolve_name sample_helpers (''f'', 3)
        (rs_step_name (script_defaults (PStr ''python'')))) = None"
    by (simp add: get_template_def empty_states_def)
  from run_script_missing_source
         [of sample_helpers "(''f'', 3)" "script_defaults (PStr ''python'')" empty_states] a b
  show ?thesis by blast
qed

section \<open>Properties of run_container\<close>

text \<open>
  C9: when the template name is registered already, \<open>run_container\<close> hands the caller's
  \<open>args\<close> to the assembler as they are: the registry is left alone (so nothing is
  mirrored into a template's input), and the Step records supplied arguments unchanged
  and the staging list is not appended. Only when the template is freshly registered
  are the arguments normalised (lines 128 to 156), and then the normalised list goes
  both into the Template and to the assembler.
\<close>

theorem run_container_normalizes_only_when_fresh:
  "(get_template st (resolve_name h site (rc_step_name c)) \<noteq> None \<longrightarrow>
      run_container h site c st =
        container_step h (resolve_name h site (rc_step_name c)) (rc_args c)
          (rc_step_name c) (snd site) st \<and>
      templates (snd (run_container h site c st)) = templates st \<and>
      (\<forall>rets st'. run_container h site c st = (Inr rets, st') \<longrightarrow> rc_args c \<noteq> PNone \<longrightarrow>
         step_args (last (steps st')) = rc_args c \<and> outputs_tmp st' = outputs_tmp st)) \<and>
   (get_template st (resolve_name h site (rc_step_name c)) = None \<longrightarrow>
      (\<forall>rets st'. run_container h site c st = (Inr rets, st') \<longrightarrow>
         (\<exists>args input t.
            normalize_args (rc_args c) (rc_input c) (outputs_tmp st) = Inr (args, input) \<and>
            templates st' = templates st @ [(resolve_name h site (rc_step_name c), Container t)] \<and>
            c_args t = args \<and> c_input t = input \<and>
            step_args (last (steps st')) = args)))"
proof (intro conjI impI allI)
  assume reg: "get_template st (resolve_name h site (rc_step_name c)) \<noteq> None"
  show eq: "run_container h site c st =
        container_step h (resolve_name h site (rc_step_name c)) (rc_args c)
          (rc_step_name c) (snd site) st"
    by (rule run_container_reuse [OF reg])
  show "templates (snd (run_container h site c st)) = templates st"
    by (simp add: eq container_step_templates)
next
  fix rets st'
  assume reg: "get_template st (resolve_name h site (rc_step_name c)) \<noteq> None"
    and ok: "run_container h site c st = (Inr rets, st')" and a: "rc_args c \<noteq> PNone"
  from ok run_container_reuse [OF reg]
  have "container_step h (resolve_name h site (rc_step_name c)) (rc_args c)
          (rc_step_name c) (snd site) st = (Inr rets, st')" by simp
  from container_step_ok(2,3) [OF this] a
  have "step_args (last (steps st')) = rc_args c \<and> outputs_tmp st' = outputs_tmp st"
    by auto
  then show "step_args (last (steps st')) = rc_args c" and "outputs_tmp st' = outputs_tmp st"
    by simp_all
next
  fix rets st'
  assume fresh: "get_template st (resolve_name h site (rc_step_name c)) = None"
    and ok: "run_container h site c st = (Inr rets, st')"
  from run_container_fresh [OF fresh ok]
  show "\<exists>args input t.
            normalize_args (rc_args c) (rc_input c) (outputs_tmp st) = Inr (args, input) \<and>
            templates st' = templates st @ [(resolve_name h site (rc_step_name c), Container t)] \<and>
            c_args t = args \<and> c_input t = input \<and>
            step_args (last (steps st')) = args"
    by auto
qed

theorem run_container_normalizes_only_when_fresh_witness:
  "get_template after_echo
     (resolve_name sample_helpers (''c'', 5) (rc_step_name echo_call)) \<noteq> None \<and>
   run_container sample_helpers (''c'', 5) echo_call after_echo =
     container_step sample_helpers
       (resolve_name sample_helpers (''c'', 5) (rc_step_name echo_call))
       (rc_args echo_call) (rc_step_name echo_call) (snd (''c'', 5 :: nat)) after_echo \<and>
   map step_args (steps (snd (run_container sample_helpers (''c'', 5) echo_call after_echo))) =
     [PList [PStr ''echo''], PStr ''echo'']"
proof -
  have reg: "get_template after_echo
     (resolve_name sample_helpers (''c'', 5) (rc_step_name echo_call)) \<noteq> None"
    by code_simp
  have ev: "map step_args
      (steps (snd (run_container sample_helpers (''c'', 5) echo_call after_echo))) =
     [PList [PStr ''echo''], PStr ''echo'']"
    by code_simp
  from run_container_normalizes_only_when_fresh
         [of after_echo sample_helpers "(''c'', 5)" echo_call] reg ev
  show ?thesis by blast
qed




text \<open>
  C3: in every call of \<open>run_container\<close> that returns, each artifact or resource proxy
  found among the arguments of the appended Step is one of the Step's required inputs;
  when the call constructs the Template, each such proxy in the normalised argument list
  is in the Template's input list too, whether or not the caller listed it in \<open>input\<close>.
\<close>

theorem run_container_promotes_artifacts:
  assumes ok: "run_container h site c st = (Inr rets, st')"
    and art: "kind p = Artifact \<or> kind p = Resource"
  shows "\<exists>s. steps st' = steps st @ [s] \<and>
           (p \<in> set (scan_args (step_args s)) \<longrightarrow> p \<in> set (step_inputs s)) \<and>
           (get_template st (resolve_name h site (rc_step_name c)) = None \<longrightarrow>
              (\<exists>t. templates st' =
                      templates st @ [(resolve_name h site (rc_step_name c), Container t)] \<and>
                    step_args s = c_args t \<and>
                    (\<forall>items. c_args t = PList items \<longrightarrow> POut p \<in> set items \<longrightarrow>
                       (\<exists>ins. c_input t = PList ins \<and> POut p \<in> set ins) \<and>
                       p \<in> set (step_inputs s))))"
proof (cases "get_template st (resolve_name h site (rc_step_name c)) = None")
  case True
  from run_container_fresh [OF True ok] obtain args input t s where
    n: "normalize_args (rc_args c) (rc_input c) (outputs_tmp st) = Inr (args, input)"
    and r: "templates st' = templates st @ [(resolve_name h site (rc_step_name c), Container t)]"
      "c_args t = args" "c_input t = input" "steps st' = steps st @ [s]" "step_args s = args"
      "step_inputs s = filter (\<lambda>p. kind p \<noteq> Plain) (scan_args args)"
    by blast
  have "(\<exists>ins. input = PList ins \<and> POut p \<in> set ins) \<and> p \<in> set (step_inputs s)"
    if "args = PList items" "POut p \<in> set items" for items
  proof -
    from n that obtain i1 where "mirror items i1 = Inr input"
      using normalize_args_mirror by blast
    from mirror_member [OF this _ that(2)] art
    have "\<exists>ins. input = PList ins \<and> POut p \<in> set ins"
      by (simp add: is_artifact_proxy)
    moreover have "p \<in> set (step_inputs s)"
      using r(6) that art scan_args_member [OF that(2)] by (auto simp: kind_not_plain)
    ultimately show ?thesis by simp
  qed
  with r art show ?thesis by (auto simp: kind_not_plain)
next
  case False
  with ok have "container_step h (resolve_name h site (rc_step_name c)) (rc_args c)
          (rc_step_name c) (snd site) st = (Inr rets, st')"
    by (simp add: run_container_reuse)
  from container_step_ok(2) [OF this] False art show ?thesis
    by (auto simp: kind_not_plain)
qed

theorem run_container_promotes_artifacts_witness:
  "run_container sample_helpers (''consume'', 4) consume_call produced =
     (Inr (PList [POut (Output Artifact ''consume'' ''consume'' ''out'')]),
      snd (run_container sample_helpers (''consume'', 4) consume_call produced)) \<and>
   (kind produced_artifact = Artifact \<or> kind produced_artifact = Resource) \<and>
   rc_input consume_call = PNone \<and>
   map step_inputs
     (steps (snd (run_container sample_helpers (''consume'', 4) consume_call produced))) =
     [[], [produced_artifact]] \<and>
   map (\<lambda>(n, t). case t of Container x \<Rightarrow> c_input x | _ \<Rightarrow> PNone)
     (templates (snd (run_container sample_helpers (''consume'', 4) consume_call produced))) =
     [PList [], PList [POut produced_artifact]] \<and>
   (\<exists>s. steps (snd (run_container sample_helpers (''consume'', 4) consume_call produced)) =
           steps produced @ [s] \<and>
        (produced_artifact \<in> set (scan_args (step_args s)) \<longrightarrow>
           produced_artifact \<in> set (step_inputs s)))"
proof -
  have "fst (run_container sample_helpers (''consume'', 4) consume_call produced) =
        Inr (PList [POut (Output Artifact ''consume'' ''consume'' ''out'')])"
    by code_simp
  then have ok: "run_container sample_helpers (''consume'', 4) consume_call produced =
     (Inr (PList [POut (Output Artifact ''consume'' ''consume'' ''out'')]),
      snd (run_container sample_helpers (''consume'', 4) consume_call produced))"
    by (metis prod.collapse)
  have art: "kind produced_artifact = Artifact \<or> kind produced_artifact = Resource"
    by (simp add: produced_artifact_def)
  have inp: "rc_input consume_call = PNone"
    by (simp add: consume_call_def container_defaults_def)
  have ev: "map step_inputs
     (steps (snd (run_container sample_helpers (''consume'', 4) consume_call produced))) =
     [[], [produced_artifact]]"
    by code_simp
  have tm: "map (\<lambda>(n, t). case t of Container x \<Rightarrow> c_input x | _ \<Rightarrow> PNone)
     (templates (snd (run_container sample_helpers (''consume'', 4) consume_call produced))) =
     [PList [], PList [POut produced_artifact]]"
    by code_simp
  from run_container_promotes_artifacts [OF ok art]
  have "\<exists>s. steps (snd (run_container sample_helpers (''consume'', 4) consume_call produced)) =
           steps produced @ [s] \<and>
        (produced_artifact \<in> set (scan_args (step_args s)) \<longrightarrow>
           produced_artifact \<in> set (step_inputs s))"
    by blast
  with ok art inp ev tm show ?thesis by blast
qed

text \<open>
  C5, as the code has it: in every call of \<open>run_container\<close> that returns, made without
  \<open>args\<close> while the staging list is non-empty, the staged proxies are the argument list of
  the appended Step. When the call constructs the Template, they are the Template's
  argument list as well and the staging list is left as it was: \<open>run_container\<close> does not
  clear it, and the assembler, which is handed the list as explicit arguments, does not
  either. When the template exists already, no Template is constructed and the
  assembler, handed no arguments, takes the staged proxies and clears the staging list.
\<close>

theorem run_container_implicit_args:
  assumes none: "rc_args c = PNone"
    and staged: "outputs_tmp st = Some ps" "ps \<noteq> []"
    and ok: "run_container h site c st = (Inr rets, st')"
  shows "\<exists>s. steps st' = steps st @ [s] \<and> step_args s = PList (map POut ps) \<and>
           (get_template st (resolve_name h site (rc_step_name c)) = None \<longrightarrow>
              (\<exists>t. templates st' =
                      templates st @ [(resolve_name h site (rc_step_name c), Container t)] \<and>
                    c_args t = PList (map POut ps)) \<and>
              outputs_tmp st' = Some ps) \<and>
           (get_template st (resolve_name h site (rc_step_name c)) \<noteq> None \<longrightarrow>
              templates st' = templates st \<and> outputs_tmp st' = None)"
proof (cases "get_template st (resolve_name h site (rc_step_name c)) = None")
  case True
  from run_container_fresh [OF True ok] obtain args input t s where
    n: "normalize_args (rc_args c) (rc_input c) (outputs_tmp st) = Inr (args, input)"
    and r: "templates st' = templates st @ [(resolve_name h site (rc_step_name c), Container t)]"
      "c_args t = args" "steps st' = steps st @ [s]" "step_args s = args"
      "outputs_tmp st' = outputs_tmp st"
    by blast
  from n none staged have "args = PList (map POut ps)"
    by (simp add: normalize_args_implicit)
  with r True staged show ?thesis by auto
next
  case False
  with ok have "container_step h (resolve_name h site (rc_step_name c)) (rc_args c)
          (rc_step_name c) (snd site) st = (Inr rets, st')"
    by (simp add: run_container_reuse)
  from container_step_ok [OF this] False none staged show ?thesis
    by (auto simp: pending_nonempty_def pending_list_def)
qed

theorem run_container_implicit_args_witness:
  "rc_args (container_defaults (PStr ''alpine'')) = PNone \<and>
   outputs_tmp staged_states = Some [Output Plain ''s'' ''s'' ''result''] \<and>
   [Output Plain ''s'' ''s'' ''result''] \<noteq> [] \<and>
   run_container sample_helpers (''c'', 5) (container_defaults (PStr ''alpine'')) staged_states =
     (Inr (PList [POut (Output Artifact ''c'' ''c'' ''out'')]),
      snd (run_container sample_helpers (''c'', 5) (container_defaults (PStr ''alpine''))
             staged_states)) \<and>
   (\<exists>s. steps (snd (run_container sample_helpers (''c'', 5)
                      (container_defaults (PStr ''alpine'')) staged_states)) =
           steps staged_states @ [s] \<and>
        step_args s = PList (map POut [Output Plain ''s'' ''s'' ''result'']))"
proof -
  have none: "rc_args (container_defaults (PStr ''alpine'')) = PNone"
    by (simp add: container_defaults_def)
  have staged: "outputs_tmp staged_states = Some [Output Plain ''s'' ''s'' ''result'']"
    by (simp add: staged_states_def empty_states_def)
  have ne: "[Output Plain ''s'' ''s'' ''result''] \<noteq> []"
    by simp
  have "fst (run_container sample_helpers (''c'', 5) (container_defaults (PStr ''alpine''))
               staged_states) = Inr (PList [POut (Output Artifact ''c'' ''c'' ''out'')])"
    by code_simp
  then have ok: "run_container sample_helpers (''c'', 5) (container_defaults (PStr ''alpine''))
       staged_states =
     (Inr (PList [POut (Output Artifact ''c'' ''c'' ''out'')]),
      snd (run_container sample_helpers (''c'', 5) (container_defaults (PStr ''alpine''))
             staged_states))"
    by (metis prod.collapse)
  from run_container_implicit_args [OF none staged ne ok]
  have "\<exists>s. steps (snd (run_container sample_helpers (''c'', 5)
                      (container_defaults (PStr ''alpine'')) staged_states)) =
           steps staged_states @ [s] \<and>
        step_args s = PList (map POut [Output Plain ''s'' ''s'' ''result''])"
    by blast
  with none staged ne ok show ?thesis by blast
qed

text \<open>
  The claim C5 as stated fails where the Template is freshly registered: after the call
  the staged proxy is still in the staging list.
\<close>

theorem run_container_keeps_staging:
  "rc_args (container_defaults (PStr ''alpine'')) = PNone \<and>
   outputs_tmp staged_states = Some [Output Plain ''s'' ''s'' ''result''] \<and>
   fst (run_container sample_helpers (''c'', 5) (container_defaults (PStr ''alpine''))
          staged_states) = Inr (PList [POut (Output Artifact ''c'' ''c'' ''out'')]) \<and>
   outputs_tmp (snd (run_container sample_helpers (''c'', 5)
                       (container_defaults (PStr ''alpine'')) staged_states)) =
     Some [Output Plain ''s'' ''s'' ''result'']"
  by code_simp

section \<open>Properties of run_job\<close>

text \<open>
  C8: without a manifest \<open>run_job\<close> raises \<open>MissingManifestError\<close>, and the state is the
  state before the call.
\<close>

theorem run_job_missing_manifest: "rj_manifest c = None \<Longrightarrow> run_job h site c st = (Inl MissingManifestError, st)"
  by (simp add: run_job_def)

theorem run_job_missing_manifest_witness:
  "rj_manifest (job_defaults None PNone PNone) = None \<and>
   run_job sample_helpers (''job'', 7) (job_defaults None PNone PNone) staged_states =
     (Inl MissingManifestError, staged_states)"
  using run_job_missing_manifest
          [of "job_defaults None PNone PNone" sample_helpers "(''job'', 7)" staged_states]
  by (simp add: job_defaults_def)
















text \<open>
  C6 at a failing input: \<open>run_job\<close> called without a step name on the empty workflow.
  The assembler appends the Step named \<open>job\<close>, which is the resolved step name it
  returns; \<open>run_job\<close> drops that result and stores the proxy under the caller's
  \<open>step_name\<close>, here \<open>None\<close>, so the map has no entry for the Step \<open>job\<close>.
  (\<open>run_script\<close> and \<open>run_container\<close> assign the assembler's result to \<open>step_name\<close>
  before they build and store the proxy; see \<open>run_script_effect\<close>,
  \<open>run_container_effect\<close> and \<open>run_job_effect\<close>.)
\<close>

theorem run_job_stores_under_caller_name:
  "fst (run_job sample_helpers (''job'', 7) (job_defaults (Some ''pi.yaml'') PNone PNone)
          empty_states) = Inr (PList [POut (Output Resource ''None'' ''job'' ''job'')]) \<and>
   map step_name
     (steps (snd (run_job sample_helpers (''job'', 7)
                    (job_defaults (Some ''pi.yaml'') PNone PNone) empty_states))) = [''job''] \<and>
   steps_outputs
     (snd (run_job sample_helpers (''job'', 7)
             (job_defaults (Some ''pi.yaml'') PNone PNone) empty_states)) =
     [(None, PList [POut (Output Resource ''None'' ''job'' ''job'')])] \<and>
   map_of (steps_outputs
     (snd (run_job sample_helpers (''job'', 7)
             (job_defaults (Some ''pi.yaml'') PNone PNone) empty_states))) (Some ''job'') = None"
  by code_simp

section \<open>Properties of a repeated call\<close>








lemma known_templates [simp]: "known (st\<lparr>templates := ts\<rparr>) = known st"
  by (simp add: known_def fun_eq_iff)

lemma args_known_templates [simp]: "args_known (st\<lparr>templates := ts\<rparr>) = args_known st"
  by (simp add: args_known_def fun_eq_iff)

lemma staging_known_templates [simp]:
  "staging_known (st\<lparr>templates := ts\<rparr>) = staging_known st"
  by (simp add: staging_known_def)

lemma pending_templates [simp]:
  "pending_nonempty (st\<lparr>templates := ts\<rparr>) = pending_nonempty st"
  "pending_list (st\<lparr>templates := ts\<rparr>) = pending_list st"
  by (simp_all add: pending_nonempty_def pending_list_def)


lemma update_step_frame:
  "templates (snd (update_step f a e l st)) = templates st \<and>
   (steps (snd (update_step f a e l st)) = steps st \<or>
    (\<exists>s. steps (snd (update_step f a e l st)) = steps st @ [s] \<and> step_template s = f)) \<and>
   (outputs_tmp (snd (update_step f a e l st)) = outputs_tmp st \<or>
    outputs_tmp (snd (update_step f a e l st)) = None) \<and>
   secrets (snd (update_step f a e l st)) = secrets st"
  by (simp add: update_step_def Let_def)











lemma quiet_iff:
  "quiet n st st' =
     (\<exists>ts ss. templates st' = templates st @ ts \<and> n \<notin> fst ` set ts \<and>
              steps st' = steps st @ ss \<and> (\<forall>s \<in> set ss. step_template s \<noteq> n))"
  by (auto simp: quiet_def prefix_def list_all_iff)

lemma quiet_refl: "quiet n st st"
  by (simp add: quiet_iff)

lemma quiet_trans: "quiet n a b \<Longrightarrow> quiet n b c \<Longrightarrow> quiet n a c"
  unfolding quiet_iff by (elim conjE exE) (simp, blast)

lemma update_step_quiet:
  assumes "f \<noteq> n" and "update_step f a e l st = (r, st')"
  shows "quiet n st st'"
proof -
  from update_step_frame [of f a e l st] assms(2)
  have t: "templates st' = templates st"
    and s: "steps st' = steps st \<or> (\<exists>x. steps st' = steps st @ [x] \<and> step_template x = f)"
    by simp_all
  from s assms(1)
  have "\<exists>ss. steps st' = steps st @ ss \<and> (\<forall>x \<in> set ss. step_template x \<noteq> n)"
    by auto
  then show ?thesis using t by (simp add: quiet_iff)
qed

lemma add_template_quiet:
  assumes "add_template t st = (r, st')" and "template_name t \<noteq> n"
  shows "quiet n st st'"
proof -
  from assms(1) have "st' = st \<or> st' = st\<lparr>templates := templates st @ [(template_name t, t)]\<rparr>"
    by (auto simp: add_template_def split: option.splits if_splits)
  then show ?thesis
  proof
    assume "st' = st" then show ?thesis by (simp add: quiet_refl)
  next
    assume "st' = st\<lparr>templates := templates st @ [(template_name t, t)]\<rparr>"
    with assms(2) show ?thesis by (simp add: quiet_iff)
  qed
qed

lemma quiet_steps_outputs: "quiet n st st' \<Longrightarrow> quiet n st (st'\<lparr>steps_outputs := x\<rparr>)"
  by (simp add: quiet_iff)

lemma quiet_here [simp]: "quiet n st (snd (r, st))" "quiet n st st"
  by (simp_all add: quiet_refl)

lemma bind_quiet:
  assumes "quiet n st (snd m)" and "\<And>u st1. quiet n st1 (snd (k u st1))"
  shows "quiet n st (snd (case m of (Inl e, st1) \<Rightarrow> (Inl e, st1) | (Inr u, st1) \<Rightarrow> k u st1))"
proof (cases m)
  case (Pair r st1)
  with assms(1) have q: "quiet n st st1" by simp
  show ?thesis
  proof (cases r)
    case (Inl e)
    with Pair q show ?thesis by simp
  next
    case (Inr u)
    with Pair quiet_trans [OF q assms(2) [of st1 u]] show ?thesis by simp
  qed
qed

lemma update_step_quiet_snd: "f \<noteq> n \<Longrightarrow> quiet n st (snd (update_step f a e l st))"
  using update_step_quiet [of f n a e l st] by (cases "update_step f a e l st") simp

lemma add_template_quiet_snd: "template_name t \<noteq> n \<Longrightarrow> quiet n st (snd (add_template t st))"
  using add_template_quiet [of t st _ _ n] by (cases "add_template t st") simp

lemma stored_quiet [simp]:
  "quiet n st (snd (r, st\<lparr>steps_outputs := x\<rparr>))"
  "quiet n st (st\<lparr>steps_outputs := x\<rparr>)"
  using quiet_steps_outputs [OF quiet_refl] by simp_all

lemma if_quiet:
  "(b \<Longrightarrow> quiet n st (snd x)) \<Longrightarrow> (\<not> b \<Longrightarrow> quiet n st (snd y)) \<Longrightarrow>
   quiet n st (snd (if b then x else y))"
  by simp

lemma sum_quiet:
  "(\<And>e. quiet n st (snd (f e))) \<Longrightarrow> (\<And>v. quiet n st (snd (g v))) \<Longrightarrow>
   quiet n st (snd (case x of Inl e \<Rightarrow> f e | Inr v \<Rightarrow> g v))"
  by (cases x) simp_all

lemma prod_quiet:
  "(\<And>a b. quiet n st (snd (f a b))) \<Longrightarrow> quiet n st (snd (case p of (a, b) \<Rightarrow> f a b))"
  by (cases p) simp

lemma option_quiet:
  "quiet n st (snd x) \<Longrightarrow> (\<And>v. quiet n st (snd (g v))) \<Longrightarrow>
   quiet n st (snd (case y of None \<Rightarrow> x | Some v \<Rightarrow> g v))"
  by (cases y) simp_all

lemma register_quiet:
  "template_name t \<noteq> n \<Longrightarrow>
   quiet n st (snd (case add_template t st of
                      (Inl e, st1) \<Rightarrow> (Inl e, st1) | (Inr u, st1) \<Rightarrow> (Inr v, st1)))"
  by (rule bind_quiet) (simp_all add: add_template_quiet_snd)

lemma run_script_quiet:
  assumes ne: "resolve_name h site (rs_step_name c) \<noteq> n"
  shows "quiet n st (snd (run_script h site c st))"
  unfolding run_script_def Let_def
  apply (rule bind_quiet)
   apply (rule if_quiet)
    apply (rule if_quiet)
     apply simp
    apply (rule add_template_quiet_snd)
    apply (simp add: ne)
   apply simp
  apply (rule bind_quiet)
   apply (rule update_step_quiet_snd)
   apply (rule ne)
  apply simp
  done

lemma container_step_quiet:
  assumes ne: "f \<noteq> n"
  shows "quiet n st (snd (container_step h f a e l st))"
  unfolding container_step_def Let_def
  apply (rule bind_quiet)
   apply (rule update_step_quiet_snd)
   apply (rule ne)
  apply (rule option_quiet)
   apply simp
  apply simp
  done

lemma run_container_quiet:
  assumes ne: "resolve_name h site (rc_step_name c) \<noteq> n"
  shows "quiet n st (snd (run_container h site c st))"
  unfolding run_container_def Let_def
  apply (rule bind_quiet)
   apply (rule if_quiet)
    apply (rule sum_quiet)
     apply simp
    apply (rule prod_quiet)
    apply (rule register_quiet)
    apply (simp add: ne)
   apply simp
  apply (rule container_step_quiet)
  apply (rule ne)
  done

lemma run_job_quiet:
  assumes ne: "resolve_name h site (rj_step_name c) \<noteq> n"
  shows "quiet n st (snd (run_job h site c st))"
  unfolding run_job_def Let_def
  apply (rule option_quiet)
   apply simp
  apply (rule bind_quiet)
   apply (rule if_quiet)
    apply (rule prod_quiet)
    apply (rule prod_quiet)
    apply (rule sum_quiet)
     apply simp
    apply (rule register_quiet)
    apply (simp add: ne)
   apply simp
  apply (rule bind_quiet)
   apply (rule update_step_quiet_snd)
   apply (rule ne)
  apply simp
  done

lemma invoke_quiet:
  assumes "resolve_name h site (explicit_name c) \<noteq> n"
  shows "quiet n st (snd (invoke h site c st))"
  using assms run_script_quiet run_container_quiet run_job_quiet
  by (cases c) simp_all






section \<open>Properties of escape_sql\<close>

lemma replace_nonempty_single:
  "replace_nonempty [c] r s = replace_each c r s"
  by (induction s) (auto simp: replace_each_def)

lemma str_replace_single: "str_replace [c] r s = replace_each c r s"
  by (simp add: str_replace_def replace_nonempty_single)

lemma replace_each_absent: "c \<notin> set s \<Longrightarrow> replace_each c r s = s"
  by (induction s) (auto simp: replace_each_def)

text \<open>
  C10: for every string, \<open>escape_sql\<close> is the sequence of the four replacements
  (backslash doubled, then double quote, backtick and dollar sign each prefixed with a
  backslash), and a string with none of the four characters is returned unchanged.
\<close>

theorem escape_sql_sequential:
  "escape_sql s = escape_sql_spec s \<and>
   (set s \<inter> {backslash, dquote, backtick, dollar} = {} \<longrightarrow> escape_sql s = s)"
  by (simp add: escape_sql_def escape_sql_spec_def str_replace_single replace_each_absent)

theorem escape_sql_sequential_witness:
  "set ''SELECT 1'' \<inter> {backslash, dquote, backtick, dollar} = {} \<and>
   escape_sql ''SELECT 1'' = ''SELECT 1'' \<and>
   escape_sql ''SELECT 1'' = escape_sql_spec ''SELECT 1'' \<and>
   escape_sql [backslash, CHR ''a'', dquote, backtick, dollar] =
     [backslash, backslash, CHR ''a'', backslash, dquote, backslash, backtick,
      backslash, dollar]"
proof -
  have d: "set ''SELECT 1'' \<inter> {backslash, dquote, backtick, dollar} = {}"
    by (simp add: backslash_def dquote_def backtick_def dollar_def)
  have e: "escape_sql_spec [backslash, CHR ''a'', dquote, backtick, dollar] =
     [backslash, backslash, CHR ''a'', backslash, dquote, backslash, backtick,
      backslash, dollar]"
    by (simp add: escape_sql_spec_def replace_each_def backslash_def dquote_def
        backtick_def dollar_def)
  from escape_sql_sequential [of "''SELECT 1''"]
    escape_sql_sequential [of "[backslash, CHR ''a'', dquote, backtick, dollar]"] d e
  show ?thesis
    by metis
qed

end
